theory Spec2Isabelle
  imports Main
begin

section \<open>Strings as Python handles them\<close>

text \<open>
  Python's \<^verbatim>\<open>str\<close> operations used by \<^verbatim>\<open>aircmd/actions/environments.py\<close>:
  \<^verbatim>\<open>s.startswith(p)\<close>, \<^verbatim>\<open>sub in s\<close>, \<^verbatim>\<open>s.split(sep)\<close> for a one-character
  separator, \<^verbatim>\<open>s.replace(old, new)\<close> and \<^verbatim>\<open>sep.join(xs)\<close>.
\<close>

fun startswith :: "string \<Rightarrow> string \<Rightarrow> bool" where
  "startswith s [] = True"
| "startswith [] (p # ps) = False"
| "startswith (c # cs) (p # ps) = (c = p \<and> startswith cs ps)"

fun contains :: "string \<Rightarrow> string \<Rightarrow> bool" where
  "contains [] sub = (sub = [])"
| "contains (c # cs) sub = (startswith (c # cs) sub \<or> contains cs sub)"

fun str_split :: "char \<Rightarrow> string \<Rightarrow> string list" where
  "str_split sep [] = [[]]"
| "str_split sep (c # cs) =
     (if c = sep then [] # str_split sep cs
      else (case str_split sep cs of
              [] \<Rightarrow> [[c]]
            | w # ws \<Rightarrow> (c # w) # ws))"

function replace :: "string \<Rightarrow> string \<Rightarrow> string \<Rightarrow> string" where
  "replace old new s =
     (if old = [] then new @ concat (map (\<lambda>c. c # new) s)
      else if startswith s old then new @ replace old new (drop (length old) s)
      else (case s of [] \<Rightarrow> [] | c # cs \<Rightarrow> c # replace old new cs))"
  by pat_completeness auto
termination
proof (relation "measure (\<lambda>(old, new, s). length s)")
  show "wf (measure (\<lambda>(old, new, s). length s))"
    by simp
next
  fix old new s :: string
  assume "old \<noteq> []" and "startswith s old"
  then have "s \<noteq> []"
    by (cases old) auto
  with \<open>old \<noteq> []\<close>
  show "((old, new, drop (length old) s), (old, new, s)) \<in> measure (\<lambda>(old, new, s). length s)"
    by simp
next
  fix old new s :: string and c :: char and cs :: string
  assume "s = c # cs"
  then show "((old, new, cs), (old, new, s)) \<in> measure (\<lambda>(old, new, s). length s)"
    by simp
qed

declare replace.simps [simp del]

fun join :: "string \<Rightarrow> string list \<Rightarrow> string" where
  "join sep [] = []"
| "join sep [x] = x"
| "join sep (x # y # ys) = x @ sep @ join sep (y # ys)"

section \<open>The container builder\<close>

text \<open>
  The dagger SDK's \<^verbatim>\<open>Container\<close> is an immutable builder: every \<^verbatim>\<open>with_*\<close> method
  returns a new container and leaves the receiver as it was. A container is modelled as
  the list of the builder calls that made it, oldest first; \<^verbatim>\<open>dagger_client.container()\<close>
  is the empty list, and \<open>from_image\<close> is the method \<^verbatim>\<open>from_\<close>. \<^verbatim>\<open>sharing\<close> is an optional keyword of \<^verbatim>\<open>with_mounted_cache\<close>:
  \<open>None\<close> records a call that does not pass it.
\<close>

datatype CacheSharingMode = SHARED | PRIVATE | LOCKED

datatype CacheVolume = CacheVolume (volume_name: string)

datatype Directory = RepoDir (dir_path: string) (dir_exclude: "string list option")
  (dir_include: "string list option")

datatype File = File string

datatype ContainerOp =
    From string
  | WithMountedCache string CacheVolume "CacheSharingMode option"
  | WithMountedDirectory string Directory
  | WithMountedFile string File
  | WithWorkdir string
  | WithEnvVariable string string
  | WithExec "string list" bool
  | WithExposedPort nat
  | WithServiceBinding string "ContainerOp list"

type_synonym Container = "ContainerOp list"

definition container :: Container where
  "container = []"

definition cache_volume :: "string \<Rightarrow> CacheVolume" where
  "cache_volume name = CacheVolume name"

definition from_image :: "Container \<Rightarrow> string \<Rightarrow> Container" where
  "from_image c address = c @ [From address]"

definition with_mounted_cache ::
  "Container \<Rightarrow> string \<Rightarrow> CacheVolume \<Rightarrow> CacheSharingMode option \<Rightarrow> Container" where
  "with_mounted_cache c path cache sharing = c @ [WithMountedCache path cache sharing]"


definition with_mounted_directory :: "Container \<Rightarrow> string \<Rightarrow> Directory \<Rightarrow> Container" where
  "with_mounted_directory c path dir = c @ [WithMountedDirectory path dir]"

definition with_mounted_file :: "Container \<Rightarrow> string \<Rightarrow> File \<Rightarrow> Container" where
  "with_mounted_file c path file = c @ [WithMountedFile path file]"

definition with_workdir :: "Container \<Rightarrow> string \<Rightarrow> Container" where
  "with_workdir c path = c @ [WithWorkdir path]"

definition with_env_variable :: "Container \<Rightarrow> string \<Rightarrow> string \<Rightarrow> Container" where
  "with_env_variable c name v = c @ [WithEnvVariable name v]"

text \<open>The flag of \<open>WithExec\<close> is the keyword \<^verbatim>\<open>insecure_root_capabilities\<close>.\<close>

definition with_exec :: "Container \<Rightarrow> string list \<Rightarrow> bool \<Rightarrow> Container" where
  "with_exec c args insecure_root_capabilities = c @ [WithExec args insecure_root_capabilities]"

definition with_exposed_port :: "Container \<Rightarrow> nat \<Rightarrow> Container" where
  "with_exposed_port c port = c @ [WithExposedPort port]"

definition with_service_binding :: "Container \<Rightarrow> string \<Rightarrow> Container \<Rightarrow> Container" where
  "with_service_binding c alias service = c @ [WithServiceBinding alias service]"

section \<open>Settings, errors and what lies outside the module\<close>

text \<open>The fields of \<^verbatim>\<open>GlobalSettings\<close> that \<^verbatim>\<open>environments.py\<close> reads.\<close>

record GlobalSettings =
  DOCKER_DIND_IMAGE :: string
  DOCKER_CLI_IMAGE :: string
  DOCKER_VERSION :: string
  GRADLE_BUILD_CACHE_PATH :: string
  GRADLE_READ_ONLY_DEPENDENCY_CACHE_PATH :: string
  DEFAULT_PYTHON_EXCLUDE :: "string list"

datatype error = ValueError string | ExecError int

text \<open>
  \<^verbatim>\<open>environments.py\<close> imports \<^verbatim>\<open>slugify\<close> from \<^verbatim>\<open>.strings\<close> and
  \<^verbatim>\<open>get_file_contents\<close>, \<^verbatim>\<open>with_exit_code\<close> from \<^verbatim>\<open>.pipelines\<close>; it asks the engine
  to run a container and reads a fresh \<^verbatim>\<open>uuid.uuid4()\<close>. The functions below take
  these as parameters: \<open>get_file_contents\<close> answers \<open>None\<close> or the text of the file,
  \<open>with_exit_code\<close> answers the exit status of the container's last command,
  \<open>run_container\<close> is the engine's answer (exit status, standard output) and
  \<open>uuid4\<close> the text of the identifier drawn by the call.
\<close>

record externals =
  slugify :: "string \<Rightarrow> string"
  get_file_contents :: "Container \<Rightarrow> string \<Rightarrow> string option"
  with_exit_code :: "Container \<Rightarrow> int"
  run_container :: "Container \<Rightarrow> int \<times> string"
  uuid4 :: string

text \<open>
  \<^verbatim>\<open>await container.stdout()\<close>: the dagger SDK raises \<^verbatim>\<open>ExecError\<close> when the
  container's command exits with a status other than 0, and returns the text otherwise.
\<close>

definition stdout :: "externals \<Rightarrow> Container \<Rightarrow> error + string" where
  "stdout ext c =
     (case run_container ext c of
        (code, out) \<Rightarrow> if code = 0 then Inr out else Inl (ExecError code))"

text \<open>
  Modelled from the spec: \<^verbatim>\<open>get_repo_dir\<close> of \<^verbatim>\<open>aircmd/actions/pipelines.py\<close>, which is
  not among the sources. The spec: "given include/exclude glob lists, returns a directory
  handle scoped to the repository root". The handle is the request itself: the path and
  the two optional lists.
\<close>

definition get_repo_dir ::
  "string \<Rightarrow> string list option \<Rightarrow> string list option \<Rightarrow> Directory" where
  "get_repo_dir path exclude include = RepoDir path exclude include"

text \<open>
  Modelled from the spec: \<^verbatim>\<open>slugify\<close> of \<^verbatim>\<open>aircmd/actions/strings.py\<close>, which is not
  among the sources. The spec: "a slug transform (lower-case, non-alphanumeric runs
  collapsed to single hyphens)".
\<close>

definition is_alnum :: "char \<Rightarrow> bool" where
  "is_alnum c =
     (let n = of_char c :: nat
      in (48 \<le> n \<and> n \<le> 57) \<or> (65 \<le> n \<and> n \<le> 90) \<or> (97 \<le> n \<and> n \<le> 122))"

definition lower_char :: "char \<Rightarrow> char" where
  "lower_char c =
     (let n = of_char c :: nat in if 65 \<le> n \<and> n \<le> 90 then char_of (n + 32) else c)"

function collapse_runs :: "string \<Rightarrow> string" where
  "collapse_runs [] = []"
| "collapse_runs (c # cs) =
     (if is_alnum c then c # collapse_runs cs
      else CHR ''-'' # collapse_runs (dropWhile (\<lambda>d. \<not> is_alnum d) cs))"
  by pat_completeness auto
termination
  by (relation "measure length") (auto simp: less_Suc_eq_le length_dropWhile_le)

definition slugify_spec :: "string \<Rightarrow> string" where
  "slugify_spec s = collapse_runs (map lower_char s)"

section \<open>The functions of environments.py\<close>

text \<open>
  Each function keeps its name and the order of its builder calls. The \<^verbatim>\<open>context\<close>
  argument gives the dagger client and the logger only: the client is the builder above,
  and the one function that logs returns its log lines.
\<close>

definition with_python_base :: "string \<Rightarrow> error + Container" where
  "with_python_base python_image_name =
     (if \<not> startswith python_image_name ''python:3''
      then Inl (ValueError ''You have to use a python image to build the python base environment'')
      else
        let pip_cache = cache_volume ''pip_cache'';
            base_container = from_image container python_image_name;
            base_container = with_mounted_cache base_container ''/root/.cache/pip'' pip_cache None;
            base_container = with_exec base_container [''pip'', ''install'', ''--upgrade'', ''pip''] False
        in Inr base_container)"

definition with_python_package ::
  "GlobalSettings \<Rightarrow> Container \<Rightarrow> string \<Rightarrow> string list option \<Rightarrow> Container" where
  "with_python_package settings python_environment package_source_code_path exclude =
     (let exclude = (case exclude of
                       None \<Rightarrow> DEFAULT_PYTHON_EXCLUDE settings
                     | Some [] \<Rightarrow> DEFAULT_PYTHON_EXCLUDE settings
                     | Some (e # es) \<Rightarrow> DEFAULT_PYTHON_EXCLUDE settings @ e # es);
          package_source_code_directory = get_repo_dir package_source_code_path (Some exclude) None;
          c = with_mounted_directory python_environment (''/'' @ package_source_code_path)
                package_source_code_directory;
          c = with_workdir c (''/'' @ package_source_code_path)
      in c)"

text \<open>
  The \<^verbatim>\<open>for line in requirements_txt.split("\n")\<close> loop of
  \<^verbatim>\<open>with_installed_python_package\<close>: one line after the other, the container threaded
  through.
\<close>

fun mount_local_dependencies ::
  "GlobalSettings \<Rightarrow> string \<Rightarrow> string list \<Rightarrow> Container \<Rightarrow> Container" where
  "mount_local_dependencies settings package_source_code_path [] c = c"
| "mount_local_dependencies settings package_source_code_path (line # lines) c =
     mount_local_dependencies settings package_source_code_path lines
       (if startswith line ''-e .''
        then
          let local_dependency_path = package_source_code_path @ ''/'' @ drop 3 line
          in with_mounted_directory c (''/'' @ local_dependency_path)
               (get_repo_dir local_dependency_path (Some (DEFAULT_PYTHON_EXCLUDE settings)) None)
        else c)"

definition install_local_requirements_cmd :: "string list" where
  "install_local_requirements_cmd = [''python'', ''-m'', ''pip'', ''install'', ''-r'', ''requirements.txt'']"

definition install_connector_package_cmd :: "string list" where
  "install_connector_package_cmd = [''python'', ''-m'', ''pip'', ''install'', ''.'']"

definition with_installed_python_package ::
  "externals \<Rightarrow> GlobalSettings \<Rightarrow> Container \<Rightarrow> string \<Rightarrow> string list option \<Rightarrow>
   string list option \<Rightarrow> Container" where
  "with_installed_python_package ext settings python_environment package_source_code_path
     additional_dependency_groups exclude =
     (let c = with_python_package settings python_environment package_source_code_path exclude;
          c = (case get_file_contents ext c ''requirements.txt'' of
                 None \<Rightarrow> c
               | Some requirements_txt \<Rightarrow>
                   if requirements_txt = [] then c
                   else
                     with_exec
                       (mount_local_dependencies settings package_source_code_path
                          (str_split (CHR 0x0A) requirements_txt) c)
                       install_local_requirements_cmd False);
          c = with_exec c install_connector_package_cmd False;
          c = (case additional_dependency_groups of
                 None \<Rightarrow> c
               | Some [] \<Rightarrow> c
               | Some (g # gs) \<Rightarrow>
                   with_exec c
                     (butlast install_connector_package_cmd @
                      [last install_connector_package_cmd @ ''['' @ join '','' (g # gs) @ '']''])
                     False)
      in c)"

definition with_debian_packages :: "Container \<Rightarrow> string list \<Rightarrow> Container" where
  "with_debian_packages base_container packages_to_install =
     (let update_packages_command = [''apt-get'', ''update''];
          package_install_command = [''apt-get'', ''install'', ''-y''];
          c = with_exec base_container update_packages_command False
      in with_exec c (package_install_command @ packages_to_install) False)"

definition with_pip_packages :: "Container \<Rightarrow> string list \<Rightarrow> Container" where
  "with_pip_packages base_container packages_to_install =
     (let package_install_command = [''pip'', ''install'']
      in with_exec base_container (package_install_command @ packages_to_install) False)"

text \<open>
  \<^verbatim>\<open>if docker_service_name:\<close> on an \<^verbatim>\<open>Optional[str]\<close>: \<^verbatim>\<open>None\<close> and the empty
  string are both false. \<^verbatim>\<open>shared_volume\<close> is \<^verbatim>\<open>None\<close> or a pair, and a pair is true.
\<close>

definition with_dockerd_service ::
  "externals \<Rightarrow> GlobalSettings \<Rightarrow> (string \<times> CacheVolume) option \<Rightarrow> string option \<Rightarrow> Container" where
  "with_dockerd_service ext settings shared_volume docker_service_name =
     (let docker_lib_volume_name =
            (case shared_volume of
               Some (path, cache) \<Rightarrow> path @ ''-docker-lib''
             | None \<Rightarrow> ''docker-lib'');
          docker_lib_volume_name =
            (case docker_service_name of
               None \<Rightarrow> docker_lib_volume_name
             | Some name \<Rightarrow>
                 if name = [] then docker_lib_volume_name
                 else docker_lib_volume_name @ ''-'' @ slugify ext name);
          dind = from_image container (DOCKER_DIND_IMAGE settings);
          dind = with_mounted_cache dind ''/var/lib/docker'' (cache_volume docker_lib_volume_name)
                   (Some SHARED);
          dind = (case shared_volume of
                    Some (path, cache) \<Rightarrow> with_mounted_cache dind path cache None
                  | None \<Rightarrow> dind);
          dind = with_exposed_port dind 2375
      in with_exec dind
           [''dockerd'', ''--log-level=error'', ''--host=tcp://0.0.0.0:2375'', ''--tls=false'']
           True)"

definition with_bound_docker_host ::
  "externals \<Rightarrow> GlobalSettings \<Rightarrow> Container \<Rightarrow> (string \<times> CacheVolume) option \<Rightarrow>
   string option \<Rightarrow> Container" where
  "with_bound_docker_host ext settings c shared_volume docker_service_name =
     (let dockerd = with_dockerd_service ext settings shared_volume docker_service_name;
          docker_lib_volume_name =
            (case shared_volume of
               Some (path, cache) \<Rightarrow> path @ ''-docker-lib''
             | None \<Rightarrow> ''docker-lib'');
          docker_hostname = docker_lib_volume_name;
          docker_hostname =
            (case docker_service_name of
               None \<Rightarrow> docker_hostname
             | Some name \<Rightarrow>
                 if name = [] then docker_hostname
                 else docker_hostname @ ''-'' @ slugify ext name);
          bound = with_env_variable c ''DOCKER_HOST'' (''tcp://'' @ docker_hostname @ '':2375'');
          bound = with_service_binding bound docker_hostname dockerd;
          bound = (case shared_volume of
                     Some (path, cache) \<Rightarrow> with_mounted_cache bound path cache None
                   | None \<Rightarrow> bound)
      in bound)"

definition with_docker_cli ::
  "externals \<Rightarrow> GlobalSettings \<Rightarrow> (string \<times> CacheVolume) option \<Rightarrow> string option \<Rightarrow> Container" where
  "with_docker_cli ext settings shared_volume docker_service_name =
     (let docker_cli = from_image container (DOCKER_CLI_IMAGE settings)
      in with_bound_docker_host ext settings docker_cli shared_volume docker_service_name)"


text \<open>
  \<^verbatim>\<open>load_image_to_docker_host\<close> returns nothing: what it does is the containers it
  awaits, the lines it logs, and whether it returns or raises.
\<close>

datatype outcome = Returned | Raised error

record load_run =
  awaited :: "Container list"
  logged :: "string list"
  result :: outcome

definition load_image_to_docker_host ::
  "externals \<Rightarrow> GlobalSettings \<Rightarrow> File \<Rightarrow> string \<Rightarrow> string option \<Rightarrow> load_run" where
  "load_image_to_docker_host ext settings tar_file image_tag docker_service_name =
     (let tar_name = uuid4 ext @ ''.tar'';
          docker_cli =
            with_mounted_file (with_docker_cli ext settings None docker_service_name) tar_name tar_file;
          image_rm =
            with_exec (with_env_variable docker_cli ''CACHEBUSTER'' tar_name)
              [''docker'', ''image'', ''rm'', image_tag] False;
          docker_image_rm_exit_code = with_exit_code ext image_rm;
          log = (if docker_image_rm_exit_code = 0
                 then [''Removed an existing image tagged '' @ image_tag] else []);
          image_load = with_exec docker_cli [''docker'', ''load'', ''--input'', tar_name] False
      in case stdout ext image_load of
           Inl e \<Rightarrow> \<lparr>awaited = [image_rm, image_load], logged = log, result = Raised e\<rparr>
         | Inr image_load_output \<Rightarrow>
             let log = log @ [image_load_output]
             in if contains image_load_output ''sha256:''
                then
                  let image_id =
                        replace ''Loaded image ID: sha256:'' []
                          (replace [CHR 0x0A] [] image_load_output);
                      image_tag_c = with_exec docker_cli [''docker'', ''tag'', image_id, image_tag] False
                  in case stdout ext image_tag_c of
                       Inl e \<Rightarrow>
                         \<lparr>awaited = [image_rm, image_load, image_tag_c], logged = log,
                          result = Raised e\<rparr>
                     | Inr docker_tag_output \<Rightarrow>
                         \<lparr>awaited = [image_rm, image_load, image_tag_c],
                          logged = log @ [docker_tag_output], result = Returned\<rparr>
                else \<lparr>awaited = [image_rm, image_load], logged = log, result = Returned\<rparr>)"

definition with_poetry :: "error + Container" where
  "with_poetry =
     (case with_python_base ''python:3.9'' of
        Inl e \<Rightarrow> Inl e
      | Inr python_base_environment \<Rightarrow>
          let python_with_git = with_debian_packages python_base_environment [''git''];
              python_with_poetry = with_pip_packages python_with_git [''poetry''];
              poetry_cache = cache_volume ''poetry_cache'';
              discarded = with_mounted_cache python_with_poetry ''/root/.cache/pypoetry'' poetry_cache
                            (Some SHARED)
          in Inr python_with_poetry)"

section \<open>Reading a container and a run\<close>

text \<open>
  What the statements below read off a container: its cache mounts and directory
  mounts in the order they were made, the value an environment variable has (the last
  one set), the aliases and services bound to it, and the command it runs last.
\<close>

fun cache_mounts :: "Container \<Rightarrow> (string \<times> CacheVolume \<times> CacheSharingMode option) list" where
  "cache_mounts [] = []"
| "cache_mounts (WithMountedCache path cache sharing # ops) = (path, cache, sharing) # cache_mounts ops"
| "cache_mounts (_ # ops) = cache_mounts ops"

fun directory_mounts :: "Container \<Rightarrow> (string \<times> Directory) list" where
  "directory_mounts [] = []"
| "directory_mounts (WithMountedDirectory path dir # ops) = (path, dir) # directory_mounts ops"
| "directory_mounts (_ # ops) = directory_mounts ops"

fun execs :: "Container \<Rightarrow> string list list" where
  "execs [] = []"
| "execs (WithExec args insecure # ops) = args # execs ops"
| "execs (_ # ops) = execs ops"

fun service_bindings :: "Container \<Rightarrow> (string \<times> Container) list" where
  "service_bindings [] = []"
| "service_bindings (WithServiceBinding alias service # ops) = (alias, service) # service_bindings ops"
| "service_bindings (_ # ops) = service_bindings ops"

fun env_variable :: "Container \<Rightarrow> string \<Rightarrow> string option" where
  "env_variable [] name = None"
| "env_variable (WithEnvVariable k v # ops) name =
     (case env_variable ops name of
        Some later \<Rightarrow> Some later
      | None \<Rightarrow> if k = name then Some v else None)"
| "env_variable (_ # ops) name = env_variable ops name"

definition command_of :: "Container \<Rightarrow> string list" where
  "command_of c = (case rev c of WithExec args insecure # _ \<Rightarrow> args | _ \<Rightarrow> [])"

definition commands :: "load_run \<Rightarrow> string list list" where
  "commands run = map command_of (awaited run)"

text \<open>
  The three containers \<^verbatim>\<open>load_image_to_docker_host\<close> awaits, by name: the removal of
  the image under the tag, the load of the archive, and the tagging of a loaded image.
\<close>

definition docker_cli_with_tar ::
  "externals \<Rightarrow> GlobalSettings \<Rightarrow> File \<Rightarrow> string option \<Rightarrow> Container" where
  "docker_cli_with_tar ext settings tar_file docker_service_name =
     with_mounted_file (with_docker_cli ext settings None docker_service_name)
       (uuid4 ext @ ''.tar'') tar_file"

definition image_rm_container ::
  "externals \<Rightarrow> GlobalSettings \<Rightarrow> File \<Rightarrow> string \<Rightarrow> string option \<Rightarrow> Container" where
  "image_rm_container ext settings tar_file image_tag docker_service_name =
     with_exec
       (with_env_variable (docker_cli_with_tar ext settings tar_file docker_service_name)
          ''CACHEBUSTER'' (uuid4 ext @ ''.tar''))
       [''docker'', ''image'', ''rm'', image_tag] False"

definition image_load_container ::
  "externals \<Rightarrow> GlobalSettings \<Rightarrow> File \<Rightarrow> string option \<Rightarrow> Container" where
  "image_load_container ext settings tar_file docker_service_name =
     with_exec (docker_cli_with_tar ext settings tar_file docker_service_name)
       [''docker'', ''load'', ''--input'', uuid4 ext @ ''.tar''] False"

definition image_tag_container ::
  "externals \<Rightarrow> GlobalSettings \<Rightarrow> File \<Rightarrow> string option \<Rightarrow> string \<Rightarrow> string \<Rightarrow> Container" where
  "image_tag_container ext settings tar_file docker_service_name image_id image_tag =
     with_exec (docker_cli_with_tar ext settings tar_file docker_service_name)
       [''docker'', ''tag'', image_id, image_tag] False"

text \<open>
  The naming rule in the spec's words (section 4.4): the shared volume's declared name
  plus a fixed "-docker-lib" suffix, further suffixed by the slugified service name if
  present. The name depends on the mounted path of the shared volume and on the service
  name, and on nothing else.
\<close>

definition spec_daemon_name :: "externals \<Rightarrow> string option \<Rightarrow> string option \<Rightarrow> string" where
  "spec_daemon_name ext shared_path docker_service_name =
     (case shared_path of None \<Rightarrow> [] | Some path \<Rightarrow> path @ ''-'') @ ''docker-lib'' @
     (case docker_service_name of
        None \<Rightarrow> []
      | Some name \<Rightarrow> if name = [] then [] else ''-'' @ slugify ext name)"

section \<open>Concrete inputs\<close>

text \<open>
  Settings and collaborators to run the functions on: the manifest reads as \<open>txt\<close>
  (\<open>None\<close>: it cannot be read), the removal command exits with \<open>rm_code\<close>, and the
  engine answers every command it runs with the exit status \<open>code\<close> and the output
  \<open>out\<close>.
\<close>

definition example_settings :: GlobalSettings where
  "example_settings =
     \<lparr>DOCKER_DIND_IMAGE = ''docker:23.0.1-dind'', DOCKER_CLI_IMAGE = ''docker:23.0.1-cli'',
      DOCKER_VERSION = ''20.10.23'', GRADLE_BUILD_CACHE_PATH = ''/root/gradle-cache'',
      GRADLE_READ_ONLY_DEPENDENCY_CACHE_PATH = ''/root/gradle_dependency_cache'',
      DEFAULT_PYTHON_EXCLUDE = [''.venv'']\<rparr>"

definition example_externals :: "string option \<Rightarrow> int \<Rightarrow> int \<Rightarrow> string \<Rightarrow> externals" where
  "example_externals txt rm_code code out =
     \<lparr>slugify = slugify_spec,
      get_file_contents = (\<lambda>c path. if path = ''requirements.txt'' then txt else None),
      with_exit_code = (\<lambda>c. rm_code),
      run_container = (\<lambda>c. (code, out)),
      uuid4 = ''3f2b8c1e''\<rparr>"

definition example_manifest :: string where
  "example_manifest = ''requests'' @ CHR 0x0A # ''-e ./sibling'' @ CHR 0x0A # ''-e ../other''"

section \<open>Helper lemmas\<close>

lemmas builder_defs =
  container_def cache_volume_def from_image_def with_mounted_cache_def
  with_mounted_directory_def with_mounted_file_def with_workdir_def with_env_variable_def
  with_exec_def with_exposed_port_def with_service_binding_def

lemma startswith_take: "startswith s p = (take (length p) s = p)"
  by (induction s p rule: startswith.induct) auto

lemma cache_mounts_append: "cache_mounts (a @ b) = cache_mounts a @ cache_mounts b"
  by (induction a rule: cache_mounts.induct) simp_all

lemma service_bindings_append:
  "service_bindings (a @ b) = service_bindings a @ service_bindings b"
  by (induction a rule: service_bindings.induct) simp_all

lemma env_variable_append:
  "env_variable (a @ b) name =
     (case env_variable b name of Some v \<Rightarrow> Some v | None \<Rightarrow> env_variable a name)"
  by (induction a name rule: env_variable.induct) (simp_all split: option.splits)

section \<open>The python base and poetry\<close>

text \<open>
  C9: for every image name, \<open>with_python_base\<close> raises the \<open>ValueError\<close> exactly when
  the name does not begin with the eight characters \<open>python:3\<close>, and then it returns no
  container at all: no pull, no cache mount and no command. For a name that begins with
  them it returns the container pulled from that image, with the volume \<open>pip_cache\<close>
  mounted at \<open>/root/.cache/pip\<close> and the pip upgrade command run after it.
\<close>

theorem with_python_base_validates:
  "with_python_base name =
     (if take 8 name = ''python:3''
      then Inr [From name,
                WithMountedCache ''/root/.cache/pip'' (CacheVolume ''pip_cache'') None,
                WithExec [''pip'', ''install'', ''--upgrade'', ''pip''] False]
      else Inl (ValueError ''You have to use a python image to build the python base environment''))
   \<and> isl (with_python_base name) = (take 8 name \<noteq> ''python:3'')"
proof -
  have "startswith name ''python:3'' = (take 8 name = ''python:3'')"
    using startswith_take [of name "''python:3''"] by (simp add: eval_nat_numeral)
  then show ?thesis
    by (simp add: with_python_base_def builder_defs)
qed

text \<open>
  C10: the container \<open>with_poetry\<close> returns is the python base with git installed by
  apt-get and poetry installed by pip, and nothing more. The call that mounts the
  \<open>poetry_cache\<close> volume builds a new container that is dropped: the only cache mount
  of the returned container is the pip cache of the python base.
\<close>

theorem with_poetry_drops_cache:
  "with_poetry =
     map_sum id (\<lambda>base. with_pip_packages (with_debian_packages base [''git'']) [''poetry''])
       (with_python_base ''python:3.9'')
   \<and> with_poetry =
       Inr [From ''python:3.9'',
            WithMountedCache ''/root/.cache/pip'' (CacheVolume ''pip_cache'') None,
            WithExec [''pip'', ''install'', ''--upgrade'', ''pip''] False,
            WithExec [''apt-get'', ''update''] False,
            WithExec [''apt-get'', ''install'', ''-y'', ''git''] False,
            WithExec [''pip'', ''install'', ''poetry''] False]
   \<and> map_sum id cache_mounts with_poetry =
       Inr [(''/root/.cache/pip'', CacheVolume ''pip_cache'', None)]"
  by (simp add: with_poetry_def with_python_base_def with_debian_packages_def
        with_pip_packages_def builder_defs)

section \<open>The docker daemon and its clients\<close>

lemma dockerd_cache_mounts:
  "cache_mounts (with_dockerd_service ext settings (map_option (\<lambda>p. (p, v)) shared_path) name) =
     (''/var/lib/docker'', CacheVolume (spec_daemon_name ext shared_path name), Some SHARED) #
     (case shared_path of None \<Rightarrow> [] | Some p \<Rightarrow> [(p, v, None)])"
  by (simp add: with_dockerd_service_def spec_daemon_name_def builder_defs cache_mounts_append
        split: option.splits)

lemma bound_docker_host_eq:
  "with_bound_docker_host ext settings c (map_option (\<lambda>p. (p, v)) shared_path) name =
     c @ [WithEnvVariable ''DOCKER_HOST'' (''tcp://'' @ spec_daemon_name ext shared_path name @ '':2375''),
          WithServiceBinding (spec_daemon_name ext shared_path name)
            (with_dockerd_service ext settings (map_option (\<lambda>p. (p, v)) shared_path) name)] @
     (case shared_path of None \<Rightarrow> [] | Some p \<Rightarrow> [WithMountedCache p v None])"
  by (simp add: with_bound_docker_host_def spec_daemon_name_def builder_defs
        split: option.splits)

text \<open>
  C1: for every shared volume (absent, or a mounted path with any cache volume \<open>v\<close>) and
  every service name, the first cache that \<open>with_dockerd_service\<close> mounts, at
  \<open>/var/lib/docker\<close>, is the volume named \<open>spec_daemon_name\<close>; the \<open>DOCKER_HOST\<close> of the
  client that \<open>with_bound_docker_host\<close> returns is \<open>tcp://\<close>, that same name and
  \<open>:2375\<close>; and the service binding it adds has that same name as its alias and that
  daemon as its service. The name is a function of the mounted path and the service name
  alone: the client container, the settings and the cache volume do not enter it, so two
  calls that agree on the path and the service name compute the same two strings.
\<close>

theorem docker_hostname_is_storage_name:
  "cache_mounts (with_dockerd_service ext settings (map_option (\<lambda>p. (p, v)) shared_path) name) =
     (''/var/lib/docker'', CacheVolume (spec_daemon_name ext shared_path name), Some SHARED) #
     (case shared_path of None \<Rightarrow> [] | Some p \<Rightarrow> [(p, v, None)])
   \<and> env_variable
         (with_bound_docker_host ext settings c (map_option (\<lambda>p. (p, v)) shared_path) name)
         ''DOCKER_HOST'' =
       Some (''tcp://'' @ spec_daemon_name ext shared_path name @ '':2375'')
   \<and> service_bindings
         (with_bound_docker_host ext settings c (map_option (\<lambda>p. (p, v)) shared_path) name) =
       service_bindings c @
       [(spec_daemon_name ext shared_path name,
         with_dockerd_service ext settings (map_option (\<lambda>p. (p, v)) shared_path) name)]"
  by (simp add: dockerd_cache_mounts bound_docker_host_eq env_variable_append
        service_bindings_append split: option.splits)

lemma spec_daemon_name_eq:
  "(spec_daemon_name ext shared_path (Some n1) = spec_daemon_name ext shared_path (Some n2)) =
     (if n1 = [] \<or> n2 = [] then n1 = n2 else slugify ext n1 = slugify ext n2)"
  by (auto simp: spec_daemon_name_def)

text \<open>
  C3, as amended: two calls with the same shared volume and the service names \<open>n1\<close> and
  \<open>n2\<close> get the same \<open>DOCKER_HOST\<close>, the same alias and the same daemon storage volume
  exactly when both names are empty, or neither is and \<open>slugify\<close> maps them to the same
  slug. So the hostnames and the storage names of two different names are unequal when one
  of them is empty or their slugs differ, and equal when their slugs are equal.
\<close>

theorem service_names_isolated_by_slug:
  "let sv = map_option (\<lambda>p. (p, v)) shared_path;
       same = (if n1 = [] \<or> n2 = [] then n1 = n2 else slugify ext n1 = slugify ext n2)
   in (env_variable (with_bound_docker_host ext settings c sv (Some n1)) ''DOCKER_HOST'' =
       env_variable (with_bound_docker_host ext settings c sv (Some n2)) ''DOCKER_HOST'') = same
    \<and> (map fst (service_bindings (with_bound_docker_host ext settings c sv (Some n1))) =
        map fst (service_bindings (with_bound_docker_host ext settings c sv (Some n2)))) = same
    \<and> (cache_mounts (with_dockerd_service ext settings sv (Some n1)) =
        cache_mounts (with_dockerd_service ext settings sv (Some n2))) = same"
  unfolding Let_def
  by (simp add: dockerd_cache_mounts bound_docker_host_eq env_variable_append
        service_bindings_append spec_daemon_name_eq split: option.splits)

lemma slug_G: "slugify_spec ''Gradle'' = ''gradle''"
  by code_simp

lemma slug_g: "slugify_spec ''gradle'' = ''gradle''"
  by code_simp

text \<open>
  C3 as stated fails for the slug transform of the spec: \<open>Gradle\<close> and \<open>gradle\<close> are two
  different service names with one hostname and one storage volume.
\<close>

theorem service_names_collide_counterexample:
  "''Gradle'' \<noteq> ''gradle''
   \<and> env_variable
        (with_bound_docker_host (example_externals None 0 0 []) example_settings [] None
           (Some ''Gradle'')) ''DOCKER_HOST'' =
      env_variable
        (with_bound_docker_host (example_externals None 0 0 []) example_settings [] None
           (Some ''gradle'')) ''DOCKER_HOST''
   \<and> cache_mounts
        (with_dockerd_service (example_externals None 0 0 []) example_settings None (Some ''Gradle'')) =
      cache_mounts
        (with_dockerd_service (example_externals None 0 0 []) example_settings None (Some ''gradle''))"
  by (simp add: with_bound_docker_host_def with_dockerd_service_def builder_defs
        example_externals_def slug_G slug_g)

section \<open>The gradle environment\<close>


section \<open>Installing a python package\<close>

lemma directory_mounts_append:
  "directory_mounts (a @ b) = directory_mounts a @ directory_mounts b"
  by (induction a rule: directory_mounts.induct) simp_all

lemma execs_append: "execs (a @ b) = execs a @ execs b"
  by (induction a rule: execs.induct) simp_all

lemma directory_mounts_map:
  "directory_mounts (map (\<lambda>x. WithMountedDirectory (f x) (g x)) xs) = map (\<lambda>x. (f x, g x)) xs"
  by (induction xs) simp_all

lemma execs_map_mounts: "execs (map (\<lambda>x. WithMountedDirectory (f x) (g x)) xs) = []"
  by (induction xs) simp_all

lemma mount_local_dependencies_eq:
  "mount_local_dependencies settings p lines c =
     c @ map (\<lambda>line. WithMountedDirectory (''/'' @ p @ ''/'' @ drop 3 line)
                 (RepoDir (p @ ''/'' @ drop 3 line) (Some (DEFAULT_PYTHON_EXCLUDE settings)) None))
           (filter (\<lambda>line. take 4 line = ''-e .'') lines)"
proof (induction lines arbitrary: c)
  case Nil
  show ?case by simp
next
  case (Cons line lines)
  have "startswith line ''-e .'' = (take 4 line = ''-e .'')"
    using startswith_take [of line "''-e .''"] by (simp add: eval_nat_numeral)
  with Cons show ?case
    by (simp add: builder_defs get_repo_dir_def Let_def)
qed

lemma installed_with_manifest:
  assumes "get_file_contents ext (with_python_package settings env p exclude) ''requirements.txt'' = Some txt"
    and "txt \<noteq> []"
  shows "with_installed_python_package ext settings env p groups exclude =
     with_python_package settings env p exclude @
     map (\<lambda>line. WithMountedDirectory (''/'' @ p @ ''/'' @ drop 3 line)
                 (RepoDir (p @ ''/'' @ drop 3 line) (Some (DEFAULT_PYTHON_EXCLUDE settings)) None))
       (filter (\<lambda>line. take 4 line = ''-e .'') (str_split (CHR 0x0A) txt)) @
     WithExec [''python'', ''-m'', ''pip'', ''install'', ''-r'', ''requirements.txt''] False #
     WithExec [''python'', ''-m'', ''pip'', ''install'', ''.''] False #
     (case groups of
        None \<Rightarrow> []
      | Some [] \<Rightarrow> []
      | Some (g # gs) \<Rightarrow>
          [WithExec [''python'', ''-m'', ''pip'', ''install'', ''.['' @ join '','' (g # gs) @ '']'']
             False])"
  using assms
  by (simp add: with_installed_python_package_def Let_def mount_local_dependencies_eq
        install_local_requirements_cmd_def install_connector_package_cmd_def with_exec_def
        split: option.splits list.splits)

lemma installed_without_manifest:
  assumes "get_file_contents ext (with_python_package settings env p exclude) ''requirements.txt'' = None"
  shows "with_installed_python_package ext settings env p groups exclude =
     with_python_package settings env p exclude @
     WithExec [''python'', ''-m'', ''pip'', ''install'', ''.''] False #
     (case groups of
        None \<Rightarrow> []
      | Some [] \<Rightarrow> []
      | Some (g # gs) \<Rightarrow>
          [WithExec [''python'', ''-m'', ''pip'', ''install'', ''.['' @ join '','' (g # gs) @ '']'']
             False])"
  using assms
  by (simp add: with_installed_python_package_def Let_def
        install_local_requirements_cmd_def install_connector_package_cmd_def with_exec_def
        split: option.splits list.splits)

text \<open>
  C2, as amended: when \<open>requirements.txt\<close> reads as a text that is not empty, with
  \<open>editable\<close> its lines that begin with \<open>-e .\<close> in the order of the file, what
  \<open>with_installed_python_package\<close> adds to the container with the package mounted is:
  first one directory mount for each line of \<open>editable\<close>, in that order, at the package
  path joined with the line from its fourth character on; then the command
  \<open>pip install -r requirements.txt\<close>, once; then the command \<open>pip install .\<close>. These are
  all the directory mounts it adds.
\<close>

theorem editable_mounts_in_manifest_order:
  assumes "get_file_contents ext (with_python_package settings env p exclude) ''requirements.txt'' = Some txt"
    and "txt \<noteq> []"
  shows
    "let editable = filter (\<lambda>line. take 4 line = ''-e .'') (str_split (CHR 0x0A) txt);
         base = with_python_package settings env p exclude;
         added = drop (length base) (with_installed_python_package ext settings env p groups exclude)
     in take (length base) (with_installed_python_package ext settings env p groups exclude) = base
      \<and> directory_mounts added =
          map (\<lambda>line. (''/'' @ p @ ''/'' @ drop 3 line,
                        RepoDir (p @ ''/'' @ drop 3 line) (Some (DEFAULT_PYTHON_EXCLUDE settings)) None))
            editable
      \<and> length (directory_mounts added) = length editable
      \<and> length (filter (\<lambda>args. args = install_local_requirements_cmd) (execs added)) = 1
      \<and> take (length editable) added =
          map (\<lambda>line. WithMountedDirectory (''/'' @ p @ ''/'' @ drop 3 line)
                 (RepoDir (p @ ''/'' @ drop 3 line) (Some (DEFAULT_PYTHON_EXCLUDE settings)) None))
            editable
      \<and> take 2 (drop (length editable) added) =
          [WithExec install_local_requirements_cmd False, WithExec install_connector_package_cmd False]"
  unfolding Let_def installed_with_manifest [OF assms]
  by (simp add: directory_mounts_append execs_append directory_mounts_map execs_map_mounts
        install_local_requirements_cmd_def install_connector_package_cmd_def
        split: option.splits list.splits)

text \<open>
  C8: when \<open>requirements.txt\<close> cannot be read (\<open>get_file_contents\<close> answers \<open>None\<close>),
  \<open>with_installed_python_package\<close> returns a container (the function has no error to
  raise): the container with the package mounted, to which it adds no directory mount and
  no \<open>pip install -r requirements.txt\<close>, and whose first added step is the command
  \<open>pip install .\<close>.
\<close>

theorem unreadable_manifest_installs_package_only:
  assumes "get_file_contents ext (with_python_package settings env p exclude) ''requirements.txt'' = None"
  shows
    "let base = with_python_package settings env p exclude;
         added = drop (length base) (with_installed_python_package ext settings env p groups exclude)
     in take (length base) (with_installed_python_package ext settings env p groups exclude) = base
      \<and> directory_mounts added = []
      \<and> filter (\<lambda>args. args = install_local_requirements_cmd) (execs added) = []
      \<and> take 1 added = [WithExec install_connector_package_cmd False]"
  unfolding Let_def installed_without_manifest [OF assms]
  by (simp add: install_local_requirements_cmd_def install_connector_package_cmd_def
        split: option.splits list.splits)


text \<open>
  C2 on a manifest of three lines, two of them editable: the two mounts, in the order of
  the file, then the two install commands.
\<close>

theorem editable_mounts_witness:
  "get_file_contents (example_externals (Some example_manifest) 0 0 [])
     (with_python_package example_settings [] ''pkg'' None) ''requirements.txt'' = Some example_manifest
   \<and> example_manifest \<noteq> []
   \<and> directory_mounts
        (drop 2 (with_installed_python_package (example_externals (Some example_manifest) 0 0 [])
                   example_settings [] ''pkg'' None None)) =
      [(''/pkg/./sibling'', RepoDir ''pkg/./sibling'' (Some [''.venv'']) None),
       (''/pkg/../other'', RepoDir ''pkg/../other'' (Some [''.venv'']) None)]
   \<and> take 2 (drop 4 (with_installed_python_package (example_externals (Some example_manifest) 0 0 [])
                   example_settings [] ''pkg'' None None)) =
      [WithExec [''python'', ''-m'', ''pip'', ''install'', ''-r'', ''requirements.txt''] False,
       WithExec [''python'', ''-m'', ''pip'', ''install'', ''.''] False]"
proof -
  have h1: "get_file_contents (example_externals (Some example_manifest) 0 0 [])
     (with_python_package example_settings [] ''pkg'' None) ''requirements.txt'' = Some example_manifest"
    by (simp add: example_externals_def)
  have h2: "example_manifest \<noteq> []"
    by (simp add: example_manifest_def)
  have lines: "filter (\<lambda>line. take 4 line = ''-e .'') (str_split (CHR 0x0A) example_manifest) =
      [''-e ./sibling'', ''-e ../other'']"
    by (simp add: example_manifest_def)
  have ex: "DEFAULT_PYTHON_EXCLUDE example_settings = [''.venv'']"
    by (simp add: example_settings_def)
  have run: "with_installed_python_package (example_externals (Some example_manifest) 0 0 [])
      example_settings [] ''pkg'' None None =
      [WithMountedDirectory ''/pkg'' (RepoDir ''pkg'' (Some [''.venv'']) None),
       WithWorkdir ''/pkg'',
       WithMountedDirectory ''/pkg/./sibling'' (RepoDir ''pkg/./sibling'' (Some [''.venv'']) None),
       WithMountedDirectory ''/pkg/../other'' (RepoDir ''pkg/../other'' (Some [''.venv'']) None),
       WithExec [''python'', ''-m'', ''pip'', ''install'', ''-r'', ''requirements.txt''] False,
       WithExec [''python'', ''-m'', ''pip'', ''install'', ''.''] False]"
    by (simp add: installed_with_manifest [OF h1 h2] lines ex with_python_package_def
          get_repo_dir_def builder_defs)
  show ?thesis
    using h1 h2 editable_mounts_in_manifest_order [OF h1 h2, of None]
    by (simp add: run)
qed

text \<open>
  C2 as stated fails for a manifest that is an empty file: it has no editable line, and
  \<open>pip install -r requirements.txt\<close> is not issued at all, since the empty text counts
  as false in \<^verbatim>\<open>if requirements_txt := ...\<close>.
\<close>

theorem empty_manifest_counterexample:
  "get_file_contents (example_externals (Some []) 0 0 [])
     (with_python_package example_settings [] ''pkg'' None) ''requirements.txt'' = Some []
   \<and> execs (with_installed_python_package (example_externals (Some []) 0 0 [])
              example_settings [] ''pkg'' None None) =
      [[''python'', ''-m'', ''pip'', ''install'', ''.'']]"
  by (simp add: with_installed_python_package_def with_python_package_def builder_defs
        example_externals_def install_connector_package_cmd_def Let_def)

text \<open>
  C8 on a package whose manifest cannot be read: one step is added, \<open>pip install .\<close>.
\<close>

theorem unreadable_manifest_witness:
  "get_file_contents (example_externals None 0 0 [])
     (with_python_package example_settings [] ''pkg'' None) ''requirements.txt'' = None
   \<and> drop 2 (with_installed_python_package (example_externals None 0 0 [])
                example_settings [] ''pkg'' None None) =
      [WithExec [''python'', ''-m'', ''pip'', ''install'', ''.''] False]"
proof -
  have h: "get_file_contents (example_externals None 0 0 [])
     (with_python_package example_settings [] ''pkg'' None) ''requirements.txt'' = None"
    by (simp add: example_externals_def)
  have base: "length (with_python_package example_settings [] ''pkg'' None) = 2"
    by (simp add: with_python_package_def builder_defs)
  have "length (with_installed_python_package (example_externals None 0 0 [])
                example_settings [] ''pkg'' None None) = 3"
    by (simp add: installed_without_manifest [OF h] base)
  then show ?thesis
    using h unreadable_manifest_installs_package_only [OF h, of None]
    by (simp add: Let_def base install_connector_package_cmd_def)
qed

section \<open>Loading an image into the docker host\<close>

lemmas load_defs =
  load_image_to_docker_host_def docker_cli_with_tar_def image_rm_container_def
  image_load_container_def image_tag_container_def stdout_def Let_def

lemma command_of_with_exec: "command_of (with_exec c args insecure) = args"
  by (simp add: command_of_def with_exec_def)

lemma load_awaits_rm_then_load:
  "take 2 (awaited (load_image_to_docker_host ext settings tar_file image_tag name)) =
     [image_rm_container ext settings tar_file image_tag name,
      image_load_container ext settings tar_file name]"
  by (simp add: load_defs split: prod.splits sum.splits)

lemma load_fails:
  assumes "run_container ext (image_load_container ext settings tar_file name) = (code, out)"
    and "code \<noteq> 0"
  shows "load_image_to_docker_host ext settings tar_file image_tag name =
     \<lparr>awaited = [image_rm_container ext settings tar_file image_tag name,
                 image_load_container ext settings tar_file name],
      logged = (if with_exit_code ext (image_rm_container ext settings tar_file image_tag name) = 0
                then [''Removed an existing image tagged '' @ image_tag] else []),
      result = Raised (ExecError code)\<rparr>"
  using assms by (simp add: load_defs)

lemma load_without_sha:
  assumes "run_container ext (image_load_container ext settings tar_file name) = (0, out)"
    and "\<not> contains out ''sha256:''"
  shows "load_image_to_docker_host ext settings tar_file image_tag name =
     \<lparr>awaited = [image_rm_container ext settings tar_file image_tag name,
                 image_load_container ext settings tar_file name],
      logged = (if with_exit_code ext (image_rm_container ext settings tar_file image_tag name) = 0
                then [''Removed an existing image tagged '' @ image_tag] else []) @ [out],
      result = Returned\<rparr>"
  using assms by (simp add: load_defs)

lemma load_with_sha:
  assumes "run_container ext (image_load_container ext settings tar_file name) = (0, out)"
    and "contains out ''sha256:''"
  shows "awaited (load_image_to_docker_host ext settings tar_file image_tag name) =
     [image_rm_container ext settings tar_file image_tag name,
      image_load_container ext settings tar_file name,
      image_tag_container ext settings tar_file name
        (replace ''Loaded image ID: sha256:'' [] (replace [CHR 0x0A] [] out)) image_tag]"
  using assms by (simp add: load_defs split: prod.splits sum.splits)


lemma untagged_has_sha: "contains (''Loaded image ID: sha256:abc123'' @ [CHR 0x0A]) ''sha256:''"
  by simp

lemma untagged_image_id:
  "replace ''Loaded image ID: sha256:'' [] (replace [CHR 0x0A] [] (''Loaded image ID: sha256:abc123'' @ [CHR 0x0A])) = ''abc123''"
  by code_simp

lemma tagged_has_no_sha: "\<not> contains (''Loaded image: myimg:latest'' @ [CHR 0x0A]) ''sha256:''"
  by simp


lemma command_of_image_rm:
  "command_of (image_rm_container ext settings tar_file image_tag name) =
     [''docker'', ''image'', ''rm'', image_tag]"
  by (simp add: image_rm_container_def command_of_with_exec)

lemma command_of_image_load:
  "command_of (image_load_container ext settings tar_file name) =
     [''docker'', ''load'', ''--input'', uuid4 ext @ ''.tar'']"
  by (simp add: image_load_container_def command_of_with_exec)

lemma command_of_image_tag:
  "command_of (image_tag_container ext settings tar_file name image_id image_tag) =
     [''docker'', ''tag'', image_id, image_tag]"
  by (simp add: image_tag_container_def command_of_with_exec)

lemmas command_of_simps = command_of_image_rm command_of_image_load command_of_image_tag

lemma example_run_container: "run_container (example_externals txt rm_code code out) c = (code, out)"
  by (simp add: example_externals_def)

lemma example_with_exit_code: "with_exit_code (example_externals txt rm_code code out) c = rm_code"
  by (simp add: example_externals_def)

lemma example_uuid4: "uuid4 (example_externals txt rm_code code out) = ''3f2b8c1e''"
  by (simp add: example_externals_def)

lemma docker_cli_with_tar_exit_code:
  "docker_cli_with_tar (ext\<lparr>with_exit_code := f\<rparr>) settings tar_file name =
   docker_cli_with_tar ext settings tar_file name"
  by (simp add: docker_cli_with_tar_def with_docker_cli_def with_bound_docker_host_def
        with_dockerd_service_def Let_def split: option.splits)

lemma load_run_every_path:
  "load_image_to_docker_host ext settings tar_file image_tag name =
     (let rm = image_rm_container ext settings tar_file image_tag name;
          load = image_load_container ext settings tar_file name;
          log = (if with_exit_code ext rm = 0
                 then [''Removed an existing image tagged '' @ image_tag] else [])
      in case run_container ext load of
           (code, out) \<Rightarrow>
             if code = 0
             then
               if contains out ''sha256:''
               then
                 let tagc = image_tag_container ext settings tar_file name
                              (replace ''Loaded image ID: sha256:'' [] (replace [CHR 0x0A] [] out))
                              image_tag
                 in case run_container ext tagc of
                      (tag_code, tag_out) \<Rightarrow>
                        if tag_code = 0
                        then \<lparr>awaited = [rm, load, tagc], logged = log @ [out, tag_out],
                              result = Returned\<rparr>
                        else \<lparr>awaited = [rm, load, tagc], logged = log @ [out],
                              result = Raised (ExecError tag_code)\<rparr>
               else \<lparr>awaited = [rm, load], logged = log @ [out], result = Returned\<rparr>
             else \<lparr>awaited = [rm, load], logged = log, result = Raised (ExecError code)\<rparr>)"
  by (simp add: load_defs split: prod.splits)


lemma load_containers_exit_code:
  "image_rm_container (ext\<lparr>with_exit_code := f\<rparr>) settings tar_file image_tag name =
     image_rm_container ext settings tar_file image_tag name"
  "image_load_container (ext\<lparr>with_exit_code := f\<rparr>) settings tar_file name =
     image_load_container ext settings tar_file name"
  "image_tag_container (ext\<lparr>with_exit_code := f\<rparr>) settings tar_file name image_id image_tag =
     image_tag_container ext settings tar_file name image_id image_tag"
  by (simp_all add: image_rm_container_def image_load_container_def image_tag_container_def
        docker_cli_with_tar_exit_code)

lemma load_result_ignores_exit_code:
  "result (load_image_to_docker_host (ext\<lparr>with_exit_code := f\<rparr>) settings tar_file image_tag name) =
     result (load_image_to_docker_host ext settings tar_file image_tag name)
   \<and> awaited (load_image_to_docker_host (ext\<lparr>with_exit_code := f\<rparr>) settings tar_file image_tag name) =
     awaited (load_image_to_docker_host ext settings tar_file image_tag name)"
  by (simp add: load_run_every_path load_containers_exit_code Let_def split: prod.splits)

text \<open>
  C5, as amended: when the load command exits with status 0 and its output has no
  \<open>sha256:\<close> in it, \<open>load_image_to_docker_host\<close> returns without an error, whether the
  output reports the target tag or not: it has run the removal and the load and no other
  command, and it has logged the output after the line about the removal, if there is
  one. An output with neither marker is not surfaced to the caller.
\<close>

theorem load_without_marker_returns:
  assumes "run_container ext (image_load_container ext settings tar_file name) = (0, out)"
    and "\<not> contains out ''sha256:''"
  shows "result (load_image_to_docker_host ext settings tar_file image_tag name) = Returned
    \<and> commands (load_image_to_docker_host ext settings tar_file image_tag name) =
        [[''docker'', ''image'', ''rm'', image_tag],
         [''docker'', ''load'', ''--input'', uuid4 ext @ ''.tar'']]
    \<and> logged (load_image_to_docker_host ext settings tar_file image_tag name) =
        (if with_exit_code ext (image_rm_container ext settings tar_file image_tag name) = 0
         then [''Removed an existing image tagged '' @ image_tag] else []) @ [out]"
  by (simp add: load_without_sha [OF assms] commands_def command_of_simps)

text \<open>
  C5, as amended, on an output that names neither a hash nor the tag, after a removal that
  exits with status 0.
\<close>

theorem load_without_marker_witness:
  "run_container (example_externals None 0 0 ''Loaded: done'')
     (image_load_container (example_externals None 0 0 ''Loaded: done'') example_settings
        (File ''image.tar'') None) = (0, ''Loaded: done'')
   \<and> \<not> contains ''Loaded: done'' ''sha256:''
   \<and> result (load_image_to_docker_host (example_externals None 0 0 ''Loaded: done'')
        example_settings (File ''image.tar'') ''myimg:latest'' None) = Returned
   \<and> logged (load_image_to_docker_host (example_externals None 0 0 ''Loaded: done'')
        example_settings (File ''image.tar'') ''myimg:latest'' None) =
      [''Removed an existing image tagged myimg:latest'', ''Loaded: done'']"
proof -
  have h1: "run_container (example_externals None 0 0 ''Loaded: done'')
     (image_load_container (example_externals None 0 0 ''Loaded: done'') example_settings
        (File ''image.tar'') None) = (0, ''Loaded: done'')"
    by (simp add: example_run_container)
  have h2: "\<not> contains ''Loaded: done'' ''sha256:''"
    by simp
  show ?thesis
    using h1 h2 load_without_marker_returns [OF h1 h2, of "''myimg:latest''"]
    by (simp add: example_with_exit_code)
qed

text \<open>
  C5 as stated fails: the output \<open>unexpected output\<close> has neither \<open>sha256:\<close> nor the
  target tag in it, and the function returns as usual after the removal and the load.
\<close>

theorem unparseable_output_counterexample:
  "\<not> contains ''unexpected output'' ''sha256:''
   \<and> \<not> contains ''unexpected output'' ''myimg:latest''
   \<and> result (load_image_to_docker_host (example_externals None 1 0 ''unexpected output'')
        example_settings (File ''image.tar'') ''myimg:latest'' None) = Returned
   \<and> commands (load_image_to_docker_host (example_externals None 1 0 ''unexpected output'')
        example_settings (File ''image.tar'') ''myimg:latest'' None) =
      [[''docker'', ''image'', ''rm'', ''myimg:latest''],
       [''docker'', ''load'', ''--input'', ''3f2b8c1e.tar'']]"
proof -
  have h1: "run_container (example_externals None 1 0 ''unexpected output'')
     (image_load_container (example_externals None 1 0 ''unexpected output'') example_settings
        (File ''image.tar'') None) = (0, ''unexpected output'')"
    by (simp add: example_run_container)
  have h2: "\<not> contains ''unexpected output'' ''sha256:''"
    by simp
  have h3: "\<not> contains ''unexpected output'' ''myimg:latest''"
    by simp
  show ?thesis
    using h2 h3
    by (simp add: load_without_sha [OF h1 h2] commands_def command_of_simps example_uuid4)
qed

text \<open>
  C6: with the target tag \<open>myimg:latest\<close>, when the load command exits with status 0 and
  the output \<open>Loaded image ID: sha256:abc123\<close> and a newline, the commands run are the
  removal, the load and one tag command, \<open>docker tag abc123 myimg:latest\<close>; when its
  output is \<open>Loaded image: myimg:latest\<close> and a newline, the commands run are the removal
  and the load, and no tag command.
\<close>

theorem load_tags_untagged_image_only:
  "(run_container ext (image_load_container ext settings tar_file name) =
      (0, ''Loaded image ID: sha256:abc123'' @ [CHR 0x0A]) \<longrightarrow>
    commands (load_image_to_docker_host ext settings tar_file ''myimg:latest'' name) =
      [[''docker'', ''image'', ''rm'', ''myimg:latest''],
       [''docker'', ''load'', ''--input'', uuid4 ext @ ''.tar''],
       [''docker'', ''tag'', ''abc123'', ''myimg:latest'']])
   \<and> (run_container ext (image_load_container ext settings tar_file name) =
      (0, ''Loaded image: myimg:latest'' @ [CHR 0x0A]) \<longrightarrow>
    commands (load_image_to_docker_host ext settings tar_file ''myimg:latest'' name) =
      [[''docker'', ''image'', ''rm'', ''myimg:latest''],
       [''docker'', ''load'', ''--input'', uuid4 ext @ ''.tar'']])"
proof (intro conjI impI)
  assume h: "run_container ext (image_load_container ext settings tar_file name) =
      (0, ''Loaded image ID: sha256:abc123'' @ [CHR 0x0A])"
  show "commands (load_image_to_docker_host ext settings tar_file ''myimg:latest'' name) =
      [[''docker'', ''image'', ''rm'', ''myimg:latest''],
       [''docker'', ''load'', ''--input'', uuid4 ext @ ''.tar''],
       [''docker'', ''tag'', ''abc123'', ''myimg:latest'']]"
    by (simp only: commands_def load_with_sha [OF h untagged_has_sha] untagged_image_id
          list.map command_of_simps)
next
  assume h: "run_container ext (image_load_container ext settings tar_file name) =
      (0, ''Loaded image: myimg:latest'' @ [CHR 0x0A])"
  show "commands (load_image_to_docker_host ext settings tar_file ''myimg:latest'' name) =
      [[''docker'', ''image'', ''rm'', ''myimg:latest''],
       [''docker'', ''load'', ''--input'', uuid4 ext @ ''.tar'']]"
    by (simp add: commands_def load_without_sha [OF h tagged_has_no_sha] command_of_simps)
qed


text \<open>
  C6 on an engine that gives the first output, and on one that gives the second.
\<close>

theorem load_tags_untagged_image_witness:
  "run_container (example_externals None 1 0 (''Loaded image ID: sha256:abc123'' @ [CHR 0x0A]))
     (image_load_container
        (example_externals None 1 0 (''Loaded image ID: sha256:abc123'' @ [CHR 0x0A]))
        example_settings (File ''image.tar'') None) =
     (0, ''Loaded image ID: sha256:abc123'' @ [CHR 0x0A])
   \<and> commands
       (load_image_to_docker_host
          (example_externals None 1 0 (''Loaded image ID: sha256:abc123'' @ [CHR 0x0A]))
          example_settings (File ''image.tar'') ''myimg:latest'' None) =
     [[''docker'', ''image'', ''rm'', ''myimg:latest''],
      [''docker'', ''load'', ''--input'', ''3f2b8c1e.tar''],
      [''docker'', ''tag'', ''abc123'', ''myimg:latest'']]
   \<and> run_container (example_externals None 1 0 (''Loaded image: myimg:latest'' @ [CHR 0x0A]))
     (image_load_container
        (example_externals None 1 0 (''Loaded image: myimg:latest'' @ [CHR 0x0A]))
        example_settings (File ''image.tar'') None) =
     (0, ''Loaded image: myimg:latest'' @ [CHR 0x0A])
   \<and> commands
       (load_image_to_docker_host
          (example_externals None 1 0 (''Loaded image: myimg:latest'' @ [CHR 0x0A]))
          example_settings (File ''image.tar'') ''myimg:latest'' None) =
     [[''docker'', ''image'', ''rm'', ''myimg:latest''],
      [''docker'', ''load'', ''--input'', ''3f2b8c1e.tar'']]"
  using
    load_tags_untagged_image_only
      [of "example_externals None 1 0 (''Loaded image ID: sha256:abc123'' @ [CHR 0x0A])"
          example_settings "File ''image.tar''" None]
    load_tags_untagged_image_only
      [of "example_externals None 1 0 (''Loaded image: myimg:latest'' @ [CHR 0x0A])"
          example_settings "File ''image.tar''" None]
  by (simp add: example_run_container example_uuid4)

text \<open>
  C7, as amended: whatever status the removal command exits with, the function awaits the
  removal and then the load, and the status changes neither the commands it awaits nor how
  it ends: put any other answer \<open>f\<close> in place of \<open>with_exit_code\<close> and both stay as they
  were. How it ends is decided by the load and the tag command alone, on every path: it
  raises \<open>ExecError\<close> with the status of the load when that is not 0, and with the status of
  the tag command when that one runs and its status is not 0, and it returns otherwise.
  The log is the line about the removal, written only when the removal exits with status
  0, followed by the outputs of the load and of the tag command: after a removal that exits
  with another status the log holds these outputs and nothing else, on every path.
\<close>

theorem removal_failure_is_swallowed:
  "take 2 (awaited (load_image_to_docker_host ext settings tar_file image_tag name)) =
     [image_rm_container ext settings tar_file image_tag name,
      image_load_container ext settings tar_file name]
   \<and> result (load_image_to_docker_host (ext\<lparr>with_exit_code := f\<rparr>) settings tar_file image_tag name) =
       result (load_image_to_docker_host ext settings tar_file image_tag name)
   \<and> awaited (load_image_to_docker_host (ext\<lparr>with_exit_code := f\<rparr>) settings tar_file image_tag name) =
       awaited (load_image_to_docker_host ext settings tar_file image_tag name)
   \<and> result (load_image_to_docker_host ext settings tar_file image_tag name) =
       (case run_container ext (image_load_container ext settings tar_file name) of
          (load_code, load_out) \<Rightarrow>
            if load_code = 0
            then
              if contains load_out ''sha256:''
              then
                (case run_container ext
                        (image_tag_container ext settings tar_file name
                           (replace ''Loaded image ID: sha256:'' [] (replace [CHR 0x0A] [] load_out))
                           image_tag) of
                   (tag_code, tag_out) \<Rightarrow>
                     if tag_code = 0 then Returned else Raised (ExecError tag_code))
              else Returned
            else Raised (ExecError load_code))
   \<and> logged (load_image_to_docker_host ext settings tar_file image_tag name) =
       (if with_exit_code ext (image_rm_container ext settings tar_file image_tag name) = 0
        then [''Removed an existing image tagged '' @ image_tag] else []) @
       (case run_container ext (image_load_container ext settings tar_file name) of
          (load_code, load_out) \<Rightarrow>
            if load_code = 0
            then
              load_out #
              (if contains load_out ''sha256:''
               then
                 (case run_container ext
                         (image_tag_container ext settings tar_file name
                            (replace ''Loaded image ID: sha256:'' [] (replace [CHR 0x0A] [] load_out))
                            image_tag) of
                    (tag_code, tag_out) \<Rightarrow> if tag_code = 0 then [tag_out] else [])
               else [])
            else [])
   \<and> (with_exit_code ext (image_rm_container ext settings tar_file image_tag name) \<noteq> 0 \<longrightarrow>
        logged (load_image_to_docker_host ext settings tar_file image_tag name) =
          (case run_container ext (image_load_container ext settings tar_file name) of
             (load_code, load_out) \<Rightarrow>
               if load_code = 0
               then
                 load_out #
                 (if contains load_out ''sha256:''
                  then
                    (case run_container ext
                            (image_tag_container ext settings tar_file name
                               (replace ''Loaded image ID: sha256:'' []
                                  (replace [CHR 0x0A] [] load_out))
                               image_tag) of
                       (tag_code, tag_out) \<Rightarrow> if tag_code = 0 then [tag_out] else [])
                  else [])
               else []))
   \<and> (with_exit_code ext (image_rm_container ext settings tar_file image_tag name) \<noteq> 0 \<longrightarrow>
        run_container ext (image_load_container ext settings tar_file name) = (0, out) \<longrightarrow>
        \<not> contains out ''sha256:'' \<longrightarrow>
        result (load_image_to_docker_host ext settings tar_file image_tag name) = Returned
        \<and> logged (load_image_to_docker_host ext settings tar_file image_tag name) = [out])
   \<and> (run_container ext (image_load_container ext settings tar_file name) = (code, out) \<longrightarrow>
        code \<noteq> 0 \<longrightarrow>
        result (load_image_to_docker_host ext settings tar_file image_tag name) =
          Raised (ExecError code)
        \<and> length (awaited (load_image_to_docker_host ext settings tar_file image_tag name)) = 2)"
proof (intro conjI impI)
  show "take 2 (awaited (load_image_to_docker_host ext settings tar_file image_tag name)) =
     [image_rm_container ext settings tar_file image_tag name,
      image_load_container ext settings tar_file name]"
    by (rule load_awaits_rm_then_load)
next
  show "result (load_image_to_docker_host (ext\<lparr>with_exit_code := f\<rparr>) settings tar_file image_tag name) =
       result (load_image_to_docker_host ext settings tar_file image_tag name)"
    by (simp add: load_result_ignores_exit_code)
next
  show "awaited (load_image_to_docker_host (ext\<lparr>with_exit_code := f\<rparr>) settings tar_file image_tag name) =
       awaited (load_image_to_docker_host ext settings tar_file image_tag name)"
    by (simp add: load_result_ignores_exit_code)
next
  show "result (load_image_to_docker_host ext settings tar_file image_tag name) =
       (case run_container ext (image_load_container ext settings tar_file name) of
          (load_code, load_out) \<Rightarrow>
            if load_code = 0
            then
              if contains load_out ''sha256:''
              then
                (case run_container ext
                        (image_tag_container ext settings tar_file name
                           (replace ''Loaded image ID: sha256:'' [] (replace [CHR 0x0A] [] load_out))
                           image_tag) of
                   (tag_code, tag_out) \<Rightarrow>
                     if tag_code = 0 then Returned else Raised (ExecError tag_code))
              else Returned
            else Raised (ExecError load_code))"
    by (simp add: load_run_every_path Let_def split: prod.splits)
next
  show logged: "logged (load_image_to_docker_host ext settings tar_file image_tag name) =
       (if with_exit_code ext (image_rm_container ext settings tar_file image_tag name) = 0
        then [''Removed an existing image tagged '' @ image_tag] else []) @
       (case run_container ext (image_load_container ext settings tar_file name) of
          (load_code, load_out) \<Rightarrow>
            if load_code = 0
            then
              load_out #
              (if contains load_out ''sha256:''
               then
                 (case run_container ext
                         (image_tag_container ext settings tar_file name
                            (replace ''Loaded image ID: sha256:'' [] (replace [CHR 0x0A] [] load_out))
                            image_tag) of
                    (tag_code, tag_out) \<Rightarrow> if tag_code = 0 then [tag_out] else [])
               else [])
            else [])"
    by (simp add: load_run_every_path Let_def split: prod.splits)
  assume "with_exit_code ext (image_rm_container ext settings tar_file image_tag name) \<noteq> 0"
  with logged
  show "logged (load_image_to_docker_host ext settings tar_file image_tag name) =
          (case run_container ext (image_load_container ext settings tar_file name) of
             (load_code, load_out) \<Rightarrow>
               if load_code = 0
               then
                 load_out #
                 (if contains load_out ''sha256:''
                  then
                    (case run_container ext
                            (image_tag_container ext settings tar_file name
                               (replace ''Loaded image ID: sha256:'' []
                                  (replace [CHR 0x0A] [] load_out))
                               image_tag) of
                       (tag_code, tag_out) \<Rightarrow> if tag_code = 0 then [tag_out] else [])
                  else [])
               else [])"
    by simp
next
  assume rm: "with_exit_code ext (image_rm_container ext settings tar_file image_tag name) \<noteq> 0"
    and ok: "run_container ext (image_load_container ext settings tar_file name) = (0, out)"
    and no: "\<not> contains out ''sha256:''"
  show "result (load_image_to_docker_host ext settings tar_file image_tag name) = Returned"
    by (simp add: load_without_sha [OF ok no])
  from rm show "logged (load_image_to_docker_host ext settings tar_file image_tag name) = [out]"
    by (simp add: load_without_sha [OF ok no])
next
  assume ko: "run_container ext (image_load_container ext settings tar_file name) = (code, out)"
    and nz: "code \<noteq> 0"
  show "result (load_image_to_docker_host ext settings tar_file image_tag name) =
      Raised (ExecError code)"
    by (simp add: load_fails [OF ko nz])
  show "length (awaited (load_image_to_docker_host ext settings tar_file image_tag name)) = 2"
    by (simp add: load_fails [OF ko nz])
qed

text \<open>
  C7, as amended, on a removal that exits with status 1 before a load that succeeds, on a
  load that exits with status 125, and on a removal that exits with status 1 before the
  load and the tagging of an untagged image.
\<close>

theorem removal_failure_witness:
  "with_exit_code (example_externals None 1 0 (''Loaded image: myimg:latest'' @ [CHR 0x0A]))
     (image_rm_container (example_externals None 1 0 (''Loaded image: myimg:latest'' @ [CHR 0x0A]))
        example_settings (File ''image.tar'') ''myimg:latest'' None) \<noteq> 0
   \<and> run_container (example_externals None 1 0 (''Loaded image: myimg:latest'' @ [CHR 0x0A]))
     (image_load_container (example_externals None 1 0 (''Loaded image: myimg:latest'' @ [CHR 0x0A]))
        example_settings (File ''image.tar'') None) = (0, ''Loaded image: myimg:latest'' @ [CHR 0x0A])
   \<and> \<not> contains (''Loaded image: myimg:latest'' @ [CHR 0x0A]) ''sha256:''
   \<and> result (load_image_to_docker_host
        (example_externals None 1 0 (''Loaded image: myimg:latest'' @ [CHR 0x0A]))
        example_settings (File ''image.tar'') ''myimg:latest'' None) = Returned
   \<and> run_container (example_externals None 0 125 ''open image.tar: no such file'')
     (image_load_container (example_externals None 0 125 ''open image.tar: no such file'')
        example_settings (File ''image.tar'') None) = (125, ''open image.tar: no such file'')
   \<and> (125 :: int) \<noteq> 0
   \<and> result (load_image_to_docker_host
        (example_externals None 0 125 ''open image.tar: no such file'')
        example_settings (File ''image.tar'') ''myimg:latest'' None) = Raised (ExecError 125)
   \<and> with_exit_code (example_externals None 1 0 (''Loaded image ID: sha256:abc123'' @ [CHR 0x0A]))
     (image_rm_container (example_externals None 1 0 (''Loaded image ID: sha256:abc123'' @ [CHR 0x0A]))
        example_settings (File ''image.tar'') ''myimg:latest'' None) \<noteq> 0
   \<and> result (load_image_to_docker_host
        (example_externals None 1 0 (''Loaded image ID: sha256:abc123'' @ [CHR 0x0A]))
        example_settings (File ''image.tar'') ''myimg:latest'' None) = Returned
   \<and> logged (load_image_to_docker_host
        (example_externals None 1 0 (''Loaded image ID: sha256:abc123'' @ [CHR 0x0A]))
        example_settings (File ''image.tar'') ''myimg:latest'' None) =
      [''Loaded image ID: sha256:abc123'' @ [CHR 0x0A], ''Loaded image ID: sha256:abc123'' @ [CHR 0x0A]]"
  using
    removal_failure_is_swallowed
      [where ext = "example_externals None 1 0 (''Loaded image: myimg:latest'' @ [CHR 0x0A])"
         and settings = example_settings and tar_file = "File ''image.tar''"
         and image_tag = "''myimg:latest''" and name = None
         and out = "''Loaded image: myimg:latest'' @ [CHR 0x0A]" and code = 0]
    removal_failure_is_swallowed
      [where ext = "example_externals None 0 125 ''open image.tar: no such file''"
         and settings = example_settings and tar_file = "File ''image.tar''"
         and image_tag = "''myimg:latest''" and name = None
         and out = "''open image.tar: no such file''" and code = 125]
    removal_failure_is_swallowed
      [where ext = "example_externals None 1 0 (''Loaded image ID: sha256:abc123'' @ [CHR 0x0A])"
         and settings = example_settings and tar_file = "File ''image.tar''"
         and image_tag = "''myimg:latest''" and name = None]
  by (simp add: example_run_container example_with_exit_code)

text \<open>
  C7 as stated fails in its words "it is only logged": after a removal that exits with
  status 1, the log holds one line, the output of the load, and none about the removal.
\<close>

theorem removal_failure_not_logged_counterexample:
  "with_exit_code (example_externals None 1 0 (''Loaded image: myimg:latest'' @ [CHR 0x0A]))
     (image_rm_container (example_externals None 1 0 (''Loaded image: myimg:latest'' @ [CHR 0x0A]))
        example_settings (File ''image.tar'') ''myimg:latest'' None) = 1
   \<and> logged (load_image_to_docker_host
        (example_externals None 1 0 (''Loaded image: myimg:latest'' @ [CHR 0x0A]))
        example_settings (File ''image.tar'') ''myimg:latest'' None) =
      [''Loaded image: myimg:latest'' @ [CHR 0x0A]]"
proof -
  have ok: "run_container (example_externals None 1 0 (''Loaded image: myimg:latest'' @ [CHR 0x0A]))
     (image_load_container (example_externals None 1 0 (''Loaded image: myimg:latest'' @ [CHR 0x0A]))
        example_settings (File ''image.tar'') None) = (0, ''Loaded image: myimg:latest'' @ [CHR 0x0A])"
    by (simp add: example_run_container)
  show ?thesis
    using load_without_sha [OF ok tagged_has_no_sha, of "''myimg:latest''"]
    by (simp add: example_with_exit_code)
qed

end
